theory Spec2Isabelle
  imports Complex_Main "HOL-Library.Sublist"
begin

section \<open>Forest\_Fire.py: the FWI predictor page\<close>

text \<open>
  The program is one Streamlit script that is run from top to bottom for every
  interaction. One run is modelled as a function from the widget values of that run
  (record \<open>inputs\<close>), the two unpickled artifacts (records \<open>scaler\<close> and
  \<open>model\<close>) and the library calls whose results the script only passes on (record
  \<open>library\<close>) to the elements the run renders (record \<open>page\<close>).

  Numbers: a Python float is modelled by its exact value, a \<open>real\<close>. The script does
  no arithmetic on the readings or on the prediction; it stores them in an array, passes
  them to the artifacts and formats them.

  Strings are lists of code points. The labels of the page carry an emoji in front
  (outside the 8-bit range of \<open>char\<close>); a label is modelled by its text after the emoji.
\<close>

subsection \<open>Exceptions\<close>

text \<open>
  The script distinguishes exceptions only by \<open>except ValueError\<close> (single record) and
  \<open>except Exception\<close> (batch). \<open>ValueError\<close> stands for every instance of
  \<open>ValueError\<close>, subclasses included; \<open>KeyError\<close> and \<open>IndexError\<close> are the two
  other classes the script's own indexing can raise; \<open>OtherException\<close> is any other
  instance of \<open>Exception\<close> that is not a \<open>ValueError\<close>. The string is \<open>str(e)\<close>.
\<close>

datatype py_exception =
    ValueError string
  | KeyError string
  | IndexError string
  | OtherException string

fun exc_str :: "py_exception \<Rightarrow> string" where
  "exc_str (ValueError m) = m"
| "exc_str (KeyError m) = m"
| "exc_str (IndexError m) = m"
| "exc_str (OtherException m) = m"

subsection \<open>Decimal digits\<close>

text \<open>\<open>str(n)\<close> of a natural number.\<close>

definition digit_char :: "nat \<Rightarrow> char" where
  "digit_char d = ''0123456789'' ! d"

fun nat_str :: "nat \<Rightarrow> string" where
  "nat_str n = (if n < 10 then [digit_char n] else nat_str (n div 10) @ [digit_char (n mod 10)])"

declare nat_str.simps [simp del]

subsection \<open>Tables and arrays\<close>

text \<open>
  A pandas DataFrame, column by column in column order, with the length of its index.
  A cell is a number, a string or a missing value.
\<close>

datatype cell = Num real | Str string | NaN

record dataframe =
  columns :: "(string \<times> cell list) list"
  nrows :: nat

definition column_names :: "dataframe \<Rightarrow> string list" where
  "column_names df = map fst (columns df)"

text \<open>\<open>df.head()\<close>: the first five rows.\<close>

definition head :: "dataframe \<Rightarrow> dataframe" where
  "head df = \<lparr>columns = map (\<lambda>(k, vs). (k, take 5 vs)) (columns df),
              nrows = min 5 (nrows df)\<rparr>"

text \<open>
  \<open>df[key] = values\<close> for a one-dimensional array of values, as pandas does it:
  a frame whose index is empty takes the index of a non-empty value (its columns are
  filled with missing values); otherwise the lengths must agree or \<open>ValueError\<close> is
  raised; an existing column name has the values of its column(s) replaced in place;
  a new name is inserted after the last column.
\<close>

definition ensure_valid_index :: "dataframe \<Rightarrow> cell list \<Rightarrow> dataframe" where
  "ensure_valid_index df vals =
     (if nrows df = 0 \<and> 0 < length vals
      then \<lparr>columns = map (\<lambda>(k, vs). (k, replicate (length vals) NaN)) (columns df),
            nrows = length vals\<rparr>
      else df)"

definition setitem :: "dataframe \<Rightarrow> string \<Rightarrow> cell list \<Rightarrow> py_exception + dataframe" where
  "setitem df0 key vals =
     (let df = ensure_valid_index df0 vals in
      if length vals \<noteq> nrows df
      then Inl (ValueError (''Length of values ('' @ nat_str (length vals) @
                            '') does not match length of index ('' @ nat_str (nrows df) @ '')''))
      else if key \<in> set (column_names df)
      then Inr (df\<lparr>columns := map (\<lambda>(k, vs). if k = key then (k, vals) else (k, vs)) (columns df)\<rparr>)
      else Inr (df\<lparr>columns := columns df @ [(key, vals)]\<rparr>))"

text \<open>What \<open>scaler.transform\<close> is called with: a numpy array or a DataFrame.\<close>

datatype array_like = NdArray "real list list" | Frame dataframe

subsection \<open>The artifacts and the library\<close>

text \<open>
  \<open>ridge.pkl\<close> and \<open>scaler.pkl\<close> are unpickled at start-up; what they compute is not
  part of the script. They are parameters: any function that returns an array or raises.
\<close>

record scaler =
  transform :: "array_like \<Rightarrow> py_exception + real list list"

record model =
  predict :: "real list list \<Rightarrow> py_exception + real list"

text \<open>
  Library calls whose results the script passes on unchanged: \<open>pd.read_csv\<close> on the
  uploaded bytes, \<open>DataFrame.to_csv(index=False)\<close>, and \<open>str\<close> of a float (the
  shortest digits that read back as the same binary64 value) as the f-string of the
  report applies it to each reading.
\<close>

record library =
  read_csv :: "string \<Rightarrow> py_exception + dataframe"
  to_csv :: "dataframe \<Rightarrow> string"
  float_str :: "real \<Rightarrow> string"

subsection \<open>The widgets of one run\<close>

text \<open>
  \<open>region_name\<close> is what the selectbox returns, \<open>uploaded_file\<close> what the uploader
  returns (\<open>None\<close> or the bytes), the eight readings are the number inputs, the two
  booleans are what the two \<open>st.button\<close> calls return, \<open>random_fwi\<close> is the draw of
  \<open>np.random.uniform(10, 80, size=10)\<close> and \<open>today\<close> the day of \<open>pd.Timestamp.today()\<close>.
\<close>

record inputs =
  region_name :: string
  uploaded_file :: "string option"
  temp :: real
  RH :: real
  Ws :: real
  Rain :: real
  FFMC :: real
  DMC :: real
  DC :: real
  ISI :: real
  predict_clicked :: bool
  report_clicked :: bool
  random_fwi :: "real list"
  today :: int

subsection \<open>Region selection\<close>

definition region_map :: "(string \<times> int) list" where
  "region_map = [(''Bejaia'', 1), (''Sidi-Bel Abbes'', 2)]"

text \<open>\<open>options=list(region_map.keys())\<close>\<close>

definition region_options :: "string list" where
  "region_options = map fst region_map"

text \<open>\<open>region_map[region_name]\<close>; a missing key raises \<open>KeyError\<close>, whose text is
  the name in apostrophes (\<open>repr\<close> of a name that needs no escapes; the selectbox
  returns only the names of \<open>region_options\<close>, for which there is no error).\<close>

definition region_lookup :: "string \<Rightarrow> py_exception + int" where
  "region_lookup name =
     (case map_of region_map name of
        None \<Rightarrow> Inl (KeyError ([CHR 39] @ name @ [CHR 39]))
      | Some code \<Rightarrow> Inr code)"

subsection \<open>Single prediction\<close>

text \<open>\<open>np.array([[region, temp, RH, Ws, Rain, FFMC, DMC, DC, ISI]])\<close>: one row; the
  integer region code becomes a float of the same value.\<close>

definition input_data :: "int \<Rightarrow> inputs \<Rightarrow> real list list" where
  "input_data region inp =
     [[real_of_int region, temp inp, RH inp, Ws inp, Rain inp,
       FFMC inp, DMC inp, DC inp, ISI inp]]"

text \<open>
  The first two statements of the \<open>try\<close> block:
  \<open>scaler.transform(input_data)\<close>, then \<open>model.predict(scaled_input)[0]\<close>.
  Index 0 of an empty result raises \<open>IndexError\<close>.
\<close>

definition predicted_fwi :: "scaler \<Rightarrow> model \<Rightarrow> real list list \<Rightarrow> py_exception + real" where
  "predicted_fwi sc md arr =
     (case transform sc (NdArray arr) of
        Inl e \<Rightarrow> Inl e
      | Inr scaled_input \<Rightarrow>
          (case predict md scaled_input of
             Inl e \<Rightarrow> Inl e
           | Inr [] \<Rightarrow> Inl (IndexError ''index 0 is out of bounds for axis 0 with size 0'')
           | Inr (y # _) \<Rightarrow> Inr y))"

subsection \<open>Formatting the prediction\<close>

text \<open>
  \<open>f"{predicted_fwi:.2f}"\<close>: the exact value is rounded to the nearest multiple of
  \<open>1/100\<close>, a tie to the even one, and written with sign, integer digits, a point and
  two digits. (The non-finite floats and the negative zero have no exact value and are
  outside the model.)
\<close>

definition round_half_even :: "real \<Rightarrow> int" where
  "round_half_even x =
     (let f = \<lfloor>x\<rfloor>; d = x - of_int f in
      if d < 1 / 2 then f
      else if 1 / 2 < d then f + 1
      else if even f then f else f + 1)"

definition fmt_2f :: "real \<Rightarrow> string" where
  "fmt_2f x =
     (let n = nat (round_half_even (\<bar>x\<bar> * 100)) in
      (if x < 0 then ''-'' else []) @ nat_str (n div 100) @ ''.'' @
      [digit_char (n mod 100 div 10), digit_char (n mod 10)])"

subsection \<open>What a run renders\<close>

record step =
  srange :: "real \<times> real"
  color :: string

record indicator =
  mode :: string
  ivalue :: real
  title :: string
  axis_range :: "real \<times> real"
  bar_color :: string
  steps :: "step list"

datatype figure = Gauge indicator | Line "int list" "real list"

record download =
  label :: string
  data :: string
  file_name :: string
  mime :: string

datatype element =
    St_success string
  | St_error string
  | St_info string
  | St_subheader string
  | St_plotly_chart figure
  | St_dataframe dataframe
  | St_download_button download

text \<open>The gauge of \<open>go.Indicator\<close>: only \<open>value\<close> depends on the prediction.\<close>

definition gauge_steps :: "step list" where
  "gauge_steps =
     [\<lparr>srange = (0, 30), color = ''lightgreen''\<rparr>,
      \<lparr>srange = (30, 70), color = ''yellow''\<rparr>,
      \<lparr>srange = (70, 100), color = ''red''\<rparr>]"

definition gauge :: "real \<Rightarrow> indicator" where
  "gauge y =
     \<lparr>mode = ''gauge+number'', ivalue = y, title = ''Fire Weather Index'',
      axis_range = (0, 100), bar_color = ''orange'', steps = gauge_steps\<rparr>"

text \<open>
  The report: the triple-quoted f-string starts with a newline, every line of the
  source is indented by twelve blanks, and the closing quotes stand after twelve more.
  The degree sign is code point 176.
\<close>

definition report_line :: "string \<Rightarrow> string" where
  "report_line s = replicate 12 CHR '' '' @ s @ [CHR 10]"

definition report :: "library \<Rightarrow> inputs \<Rightarrow> real \<Rightarrow> string" where
  "report lib inp y =
     [CHR 10] @
     concat (map report_line
       [''Forest Weather Index Prediction Report'',
        ''--------------------------------------'',
        ''Region: '' @ region_name inp,
        ''Temperature: '' @ float_str lib (temp inp) @ '' '' @ [CHR 176] @ ''C'',
        ''Humidity: '' @ float_str lib (RH inp) @ '' %'',
        ''Wind Speed: '' @ float_str lib (Ws inp) @ '' km/h'',
        ''Rain: '' @ float_str lib (Rain inp) @ '' mm'',
        ''FFMC: '' @ float_str lib (FFMC inp),
        ''DMC: '' @ float_str lib (DMC inp),
        ''DC: '' @ float_str lib (DC inp),
        ''ISI: '' @ float_str lib (ISI inp),
        ''Predicted FWI: '' @ fmt_2f y]) @
     replicate 12 CHR '' ''"

text \<open>
  The block under \<open>if st.button("Predict FWI")\<close>: the elements it renders and the
  exception that leaves it, if any. Only a \<open>ValueError\<close> is handled.
\<close>

definition single_prediction ::
    "scaler \<Rightarrow> model \<Rightarrow> library \<Rightarrow> int \<Rightarrow> inputs \<Rightarrow> element list \<times> py_exception option" where
  "single_prediction sc md lib region inp =
     (if predict_clicked inp then
        (case predicted_fwi sc md (input_data region inp) of
           Inr y \<Rightarrow>
             ([St_success (''Estimated FWI: **'' @ fmt_2f y @ ''**''),
               St_plotly_chart (Gauge (gauge y))] @
              (if report_clicked inp
               then [St_download_button
                       \<lparr>label = ''Download Report'', data = report lib inp y,
                        file_name = ''FWI_Report.txt'', mime = ''text/plain''\<rparr>]
               else []),
              None)
         | Inl (ValueError m) \<Rightarrow>
             ([St_error (''Input mismatch: '' @ m),
               St_info ''Make sure the feature order and count match your training setup.''],
              None)
         | Inl e \<Rightarrow> ([], Some e))
      else ([], None))"

subsection \<open>Batch prediction\<close>

text \<open>The statements of the \<open>try\<close> block that compute: transform, predict, assign.\<close>

definition batch_predictions :: "scaler \<Rightarrow> model \<Rightarrow> dataframe \<Rightarrow> py_exception + dataframe" where
  "batch_predictions sc md df =
     (case transform sc (Frame df) of
        Inl e \<Rightarrow> Inl e
      | Inr scaled_batch \<Rightarrow>
          (case predict md scaled_batch of
             Inl e \<Rightarrow> Inl e
           | Inr ps \<Rightarrow> setitem df ''Predicted FWI'' (map Num ps)))"

text \<open>The block under \<open>if uploaded_file is not None\<close>; every exception is handled.\<close>

definition batch_prediction :: "scaler \<Rightarrow> model \<Rightarrow> library \<Rightarrow> string option \<Rightarrow> element list" where
  "batch_prediction sc md lib file =
     (case file of
        None \<Rightarrow> []
      | Some bytes \<Rightarrow>
          (case read_csv lib bytes of
             Inl e \<Rightarrow> [St_error (''Error processing file: '' @ exc_str e)]
           | Inr df \<Rightarrow>
               [St_subheader ''Uploaded Data Preview'', St_dataframe (head df)] @
               (case batch_predictions sc md df of
                  Inl e \<Rightarrow> [St_error (''Error processing file: '' @ exc_str e)]
                | Inr out \<Rightarrow>
                    [St_subheader ''Batch Predictions'', St_dataframe out,
                     St_download_button
                       \<lparr>label = ''Download Results as CSV'', data = to_csv lib out,
                        file_name = ''fwi_predictions.csv'', mime = ''text/csv''\<rparr>])))"

subsection \<open>Historical trend and the whole run\<close>

text \<open>\<open>pd.date_range(end=today, periods=10)\<close> are the ten days ending today.\<close>

definition historical_trend :: "inputs \<Rightarrow> element list" where
  "historical_trend inp =
     [St_subheader ''Historical FWI Trend'',
      St_plotly_chart (Line (map (\<lambda>i. today inp - 9 + int i) [0..<10]) (random_fwi inp))]"

text \<open>
  One run of the script. The page is recorded block by block; \<open>uncaught\<close> is the
  exception that ends the run early, and the blocks after it are not rendered.
  (The fixed texts of the page and the input widgets themselves are not recorded.)
\<close>

record page =
  prediction_panel :: "element list"
  batch_panel :: "element list"
  trend_panel :: "element list"
  uncaught :: "py_exception option"

definition script :: "scaler \<Rightarrow> model \<Rightarrow> library \<Rightarrow> inputs \<Rightarrow> page" where
  "script sc md lib inp =
     (case region_lookup (region_name inp) of
        Inl e \<Rightarrow>
          \<lparr>prediction_panel = [], batch_panel = [], trend_panel = [], uncaught = Some e\<rparr>
      | Inr region \<Rightarrow>
          (case single_prediction sc md lib region inp of
             (shown, Some e) \<Rightarrow>
               \<lparr>prediction_panel = shown, batch_panel = [], trend_panel = [],
                uncaught = Some e\<rparr>
           | (shown, None) \<Rightarrow>
               \<lparr>prediction_panel = shown,
                batch_panel = batch_prediction sc md lib (uploaded_file inp),
                trend_panel = historical_trend inp,
                uncaught = None\<rparr>))"

subsection \<open>Notions used to state the properties\<close>

text \<open>
  Band membership in the spec's words: a step of the gauge is the band from its lower
  end, included, up to its upper end, excluded; the upper end belongs to the band only
  where it is the end of the axis. \<open>bands_at v\<close> are the colours of the steps of the
  rendered gauge in which the prediction \<open>v\<close> lies.
\<close>

definition in_band :: "indicator \<Rightarrow> step \<Rightarrow> real \<Rightarrow> bool" where
  "in_band g s v =
     (fst (srange s) \<le> v \<and>
      (v < snd (srange s) \<or> (v = snd (srange s) \<and> snd (srange s) = snd (axis_range g))))"

definition bands_at :: "real \<Rightarrow> string list" where
  "bands_at v = map color (filter (\<lambda>s. in_band (gauge v) s v) (steps (gauge v)))"

text \<open>The output table is the input table with exactly one column added at the end:
  same number of rows, and the original columns first, unchanged and in order.\<close>

definition one_column_appended :: "dataframe \<Rightarrow> dataframe \<Rightarrow> bool" where
  "one_column_appended df out =
     (nrows out = nrows df \<and>
      length (columns out) = Suc (length (columns df)) \<and>
      take (length (columns df)) (columns out) = columns df)"

text \<open>Reading a string of the form \<open>[-]digits.digits\<close> with two digits after the point
  back as a number.\<close>

definition digit_val :: "char \<Rightarrow> nat" where
  "digit_val c = of_char c - 48"

definition str_nat :: "string \<Rightarrow> nat" where
  "str_nat s = foldl (\<lambda>a c. 10 * a + digit_val c) 0 s"

definition read_unsigned_2f :: "string \<Rightarrow> real" where
  "read_unsigned_2f s =
     real (str_nat (takeWhile (\<lambda>c. c \<noteq> CHR ''.'') s)) +
     real (str_nat (drop 1 (dropWhile (\<lambda>c. c \<noteq> CHR ''.'') s))) / 100"

definition read_2f :: "string \<Rightarrow> real" where
  "read_2f s =
     (case s of
        [] \<Rightarrow> 0
      | c # r \<Rightarrow> if c = CHR ''-'' then - read_unsigned_2f r else read_unsigned_2f s)"

fun is_download :: "element \<Rightarrow> bool" where
  "is_download (St_download_button d) = True"
| "is_download _ = False"

subsection \<open>Concrete inputs and stand-in artifacts\<close>

text \<open>The widgets as the page first shows them: the first region, no upload, the
  \<open>value=\<close> of every number input, no button pressed.\<close>

definition default_inputs :: inputs where
  "default_inputs =
     \<lparr>region_name = ''Bejaia'', uploaded_file = None,
      temp = 25, RH = 45, Ws = 10, Rain = 0, FFMC = 85, DMC = 50, DC = 200, ISI = 5,
      predict_clicked = False, report_clicked = False,
      random_fwi = replicate 10 10, today = 0\<rparr>"

text \<open>
  Stand-ins for the pickled artifacts, for running the model on concrete inputs:
  a scaler that accepts rows of \<open>n\<close> numbers and leaves them as they are, raising
  \<open>ValueError\<close> otherwise as scikit-learn does; a scaler that accepts one array only
  and rejects every other argument; a linear model with every coefficient 1;
  a model that answers with fixed predictions; a library that parses every upload to a
  fixed table (its CSV text is the column names, its float text the two-decimal form).
\<close>

fun is_Num :: "cell \<Rightarrow> bool" where
  "is_Num (Num r) = True"
| "is_Num _ = False"

fun num_of :: "cell \<Rightarrow> real" where
  "num_of (Num r) = r"
| "num_of _ = 0"

definition frame_rows :: "dataframe \<Rightarrow> cell list list" where
  "frame_rows df = map (\<lambda>i. map (\<lambda>(k, vs). vs ! i) (columns df)) [0..<nrows df]"

definition fake_transform :: "nat \<Rightarrow> array_like \<Rightarrow> py_exception + real list list" where
  "fake_transform n X =
     (let rows = (case X of NdArray a \<Rightarrow> map (map Num) a | Frame df \<Rightarrow> frame_rows df) in
      if \<not> list_all (list_all is_Num) rows
      then Inl (ValueError ''could not convert string to float'')
      else if \<not> list_all (\<lambda>r. length r = n) rows
      then Inl (ValueError ''X has a different number of features than the scaler is expecting'')
      else Inr (map (map num_of) rows))"

definition fake_scaler :: "nat \<Rightarrow> scaler" where
  "fake_scaler n = \<lparr>transform = fake_transform n\<rparr>"

definition exact_scaler :: "real list list \<Rightarrow> scaler" where
  "exact_scaler expected =
     \<lparr>transform = (\<lambda>X. if X = NdArray expected then Inr [[0]]
                        else Inl (ValueError ''not the expected array''))\<rparr>"

definition fake_model :: model where
  "fake_model = \<lparr>predict = (\<lambda>X. Inr (map sum_list X))\<rparr>"

definition fixed_model :: "py_exception + real list \<Rightarrow> model" where
  "fixed_model r = \<lparr>predict = (\<lambda>X. r)\<rparr>"

definition fake_library :: "py_exception + dataframe \<Rightarrow> library" where
  "fake_library parsed =
     \<lparr>read_csv = (\<lambda>bytes. parsed), to_csv = (\<lambda>df. concat (map fst (columns df))),
      float_str = (\<lambda>x. fmt_2f x)\<rparr>"

section \<open>Properties\<close>

subsection \<open>Region selection and the feature vector\<close>

text \<open>
  Claim C2. The selectbox offers exactly the two names \<open>Bejaia\<close> and
  \<open>Sidi-Bel Abbes\<close>, in this order; the lookup gives code 1 for the first and code 2
  for the second, and every other name has no code (the lookup raises \<open>KeyError\<close>).
\<close>

theorem region_mapping_exact:
  "region_options = [''Bejaia'', ''Sidi-Bel Abbes''] \<and>
   region_lookup ''Bejaia'' = Inr 1 \<and>
   region_lookup ''Sidi-Bel Abbes'' = Inr 2 \<and>
   (\<forall>name. (name \<in> set region_options) = (name = ''Bejaia'' \<or> name = ''Sidi-Bel Abbes'')) \<and>
   (\<forall>name. region_lookup name =
      (if name = ''Bejaia'' then Inr 1
       else if name = ''Sidi-Bel Abbes'' then Inr 2
       else Inl (KeyError ([CHR 39] @ name @ [CHR 39]))))"
  by (simp add: region_options_def region_lookup_def region_map_def)

lemma default_region: "region_lookup (region_name default_inputs) = Inr 1"
  by (simp add: default_inputs_def region_lookup_def region_map_def)

lemma fmt_2f_0: "fmt_2f 0 = ''0.00''"
  by (simp add: fmt_2f_def round_half_even_def nat_str.simps digit_char_def)

text \<open>
  Claim C1. In a run in which Predict is pressed and the selected region has the code
  \<open>region\<close>, the scaler is asked about the one row
  \<open>[region, temp, RH, Ws, Rain, FFMC, DMC, DC, ISI]\<close> and what the run shows follows
  from its answer on this row: a \<open>ValueError\<close> on the row is shown as the input
  mismatch, any other exception on the row ends the run, and an array returned for the
  row goes to the model, whose first prediction is shown. With the inputs of the
  spec's example (region Bejaia, 25, 45, 10, 0, 85, 50, 200, 5) the row is
  \<open>[1, 25, 45, 10, 0, 85, 50, 200, 5]\<close>.
\<close>

theorem manual_feature_vector:
  "(predict_clicked inp \<and> region_lookup (region_name inp) = Inr region \<longrightarrow>
      (\<forall>m. transform sc (NdArray [[real_of_int region, temp inp, RH inp, Ws inp, Rain inp,
                                   FFMC inp, DMC inp, DC inp, ISI inp]]) = Inl (ValueError m) \<longrightarrow>
           script sc md lib inp =
             \<lparr>prediction_panel =
                [St_error (''Input mismatch: '' @ m),
                 St_info ''Make sure the feature order and count match your training setup.''],
              batch_panel = batch_prediction sc md lib (uploaded_file inp),
              trend_panel = historical_trend inp, uncaught = None\<rparr>) \<and>
      (\<forall>e. transform sc (NdArray [[real_of_int region, temp inp, RH inp, Ws inp, Rain inp,
                                   FFMC inp, DMC inp, DC inp, ISI inp]]) = Inl e \<and>
           (\<forall>m. e \<noteq> ValueError m) \<longrightarrow>
           script sc md lib inp =
             \<lparr>prediction_panel = [], batch_panel = [], trend_panel = [], uncaught = Some e\<rparr>) \<and>
      (\<forall>scaled y ys.
           transform sc (NdArray [[real_of_int region, temp inp, RH inp, Ws inp, Rain inp,
                                   FFMC inp, DMC inp, DC inp, ISI inp]]) = Inr scaled \<and>
           predict md scaled = Inr (y # ys) \<longrightarrow>
           take 2 (prediction_panel (script sc md lib inp)) =
             [St_success (''Estimated FWI: **'' @ fmt_2f y @ ''**''),
              St_plotly_chart (Gauge (gauge y))])) \<and>
   (predict_clicked inp \<and> region_name inp = ''Bejaia'' \<and> temp inp = 25 \<and> RH inp = 45 \<and>
    Ws inp = 10 \<and> Rain inp = 0 \<and> FFMC inp = 85 \<and> DMC inp = 50 \<and> DC inp = 200 \<and>
    ISI inp = 5 \<longrightarrow>
      (\<forall>m. transform sc (NdArray [[1, 25, 45, 10, 0, 85, 50, 200, 5]]) = Inl (ValueError m) \<longrightarrow>
           prediction_panel (script sc md lib inp) =
             [St_error (''Input mismatch: '' @ m),
              St_info ''Make sure the feature order and count match your training setup.'']) \<and>
      (\<forall>scaled y ys.
           transform sc (NdArray [[1, 25, 45, 10, 0, 85, 50, 200, 5]]) = Inr scaled \<and>
           predict md scaled = Inr (y # ys) \<longrightarrow>
           take 2 (prediction_panel (script sc md lib inp)) =
             [St_success (''Estimated FWI: **'' @ fmt_2f y @ ''**''),
              St_plotly_chart (Gauge (gauge y))]))"
proof -
  have general: "predict_clicked inp \<and> region_lookup (region_name inp) = Inr region \<longrightarrow>
      (\<forall>m. transform sc (NdArray [[real_of_int region, temp inp, RH inp, Ws inp, Rain inp,
                                   FFMC inp, DMC inp, DC inp, ISI inp]]) = Inl (ValueError m) \<longrightarrow>
           script sc md lib inp =
             \<lparr>prediction_panel =
                [St_error (''Input mismatch: '' @ m),
                 St_info ''Make sure the feature order and count match your training setup.''],
              batch_panel = batch_prediction sc md lib (uploaded_file inp),
              trend_panel = historical_trend inp, uncaught = None\<rparr>) \<and>
      (\<forall>e. transform sc (NdArray [[real_of_int region, temp inp, RH inp, Ws inp, Rain inp,
                                   FFMC inp, DMC inp, DC inp, ISI inp]]) = Inl e \<and>
           (\<forall>m. e \<noteq> ValueError m) \<longrightarrow>
           script sc md lib inp =
             \<lparr>prediction_panel = [], batch_panel = [], trend_panel = [], uncaught = Some e\<rparr>) \<and>
      (\<forall>scaled y ys.
           transform sc (NdArray [[real_of_int region, temp inp, RH inp, Ws inp, Rain inp,
                                   FFMC inp, DMC inp, DC inp, ISI inp]]) = Inr scaled \<and>
           predict md scaled = Inr (y # ys) \<longrightarrow>
           take 2 (prediction_panel (script sc md lib inp)) =
             [St_success (''Estimated FWI: **'' @ fmt_2f y @ ''**''),
              St_plotly_chart (Gauge (gauge y))])"
    for region
  proof (intro impI conjI allI)
    fix m
    assume "predict_clicked inp \<and> region_lookup (region_name inp) = Inr region"
      and "transform sc (NdArray [[real_of_int region, temp inp, RH inp, Ws inp, Rain inp,
             FFMC inp, DMC inp, DC inp, ISI inp]]) = Inl (ValueError m)"
    then show "script sc md lib inp =
             \<lparr>prediction_panel =
                [St_error (''Input mismatch: '' @ m),
                 St_info ''Make sure the feature order and count match your training setup.''],
              batch_panel = batch_prediction sc md lib (uploaded_file inp),
              trend_panel = historical_trend inp, uncaught = None\<rparr>"
      by (simp add: script_def single_prediction_def predicted_fwi_def input_data_def)
  next
    fix e
    assume "predict_clicked inp \<and> region_lookup (region_name inp) = Inr region"
      and "transform sc (NdArray [[real_of_int region, temp inp, RH inp, Ws inp, Rain inp,
             FFMC inp, DMC inp, DC inp, ISI inp]]) = Inl e \<and> (\<forall>m. e \<noteq> ValueError m)"
    then show "script sc md lib inp =
             \<lparr>prediction_panel = [], batch_panel = [], trend_panel = [], uncaught = Some e\<rparr>"
      by (cases e)
        (simp_all add: script_def single_prediction_def predicted_fwi_def input_data_def)
  next
    fix scaled y ys
    assume "predict_clicked inp \<and> region_lookup (region_name inp) = Inr region"
      and "transform sc (NdArray [[real_of_int region, temp inp, RH inp, Ws inp, Rain inp,
             FFMC inp, DMC inp, DC inp, ISI inp]]) = Inr scaled \<and> predict md scaled = Inr (y # ys)"
    then show "take 2 (prediction_panel (script sc md lib inp)) =
             [St_success (''Estimated FWI: **'' @ fmt_2f y @ ''**''),
              St_plotly_chart (Gauge (gauge y))]"
      by (simp add: script_def single_prediction_def predicted_fwi_def input_data_def)
  qed
  have example: "predict_clicked inp \<and> region_name inp = ''Bejaia'' \<and> temp inp = 25 \<and>
      RH inp = 45 \<and> Ws inp = 10 \<and> Rain inp = 0 \<and> FFMC inp = 85 \<and> DMC inp = 50 \<and>
      DC inp = 200 \<and> ISI inp = 5 \<longrightarrow>
      (\<forall>m. transform sc (NdArray [[1, 25, 45, 10, 0, 85, 50, 200, 5]]) = Inl (ValueError m) \<longrightarrow>
           prediction_panel (script sc md lib inp) =
             [St_error (''Input mismatch: '' @ m),
              St_info ''Make sure the feature order and count match your training setup.'']) \<and>
      (\<forall>scaled y ys.
           transform sc (NdArray [[1, 25, 45, 10, 0, 85, 50, 200, 5]]) = Inr scaled \<and>
           predict md scaled = Inr (y # ys) \<longrightarrow>
           take 2 (prediction_panel (script sc md lib inp)) =
             [St_success (''Estimated FWI: **'' @ fmt_2f y @ ''**''),
              St_plotly_chart (Gauge (gauge y))])"
  proof
    assume a: "predict_clicked inp \<and> region_name inp = ''Bejaia'' \<and> temp inp = 25 \<and>
      RH inp = 45 \<and> Ws inp = 10 \<and> Rain inp = 0 \<and> FFMC inp = 85 \<and> DMC inp = 50 \<and>
      DC inp = 200 \<and> ISI inp = 5"
    then have r: "predict_clicked inp \<and> region_lookup (region_name inp) = Inr 1"
      by (simp add: region_lookup_def region_map_def)
    from a have row: "[[real_of_int 1, temp inp, RH inp, Ws inp, Rain inp,
        FFMC inp, DMC inp, DC inp, ISI inp]] = [[1, 25, 45, 10, 0, 85, 50, 200, 5]]"
      by simp
    have mismatch: "prediction_panel (script sc md lib inp) =
             [St_error (''Input mismatch: '' @ m),
              St_info ''Make sure the feature order and count match your training setup.'']"
      if "transform sc (NdArray [[1, 25, 45, 10, 0, 85, 50, 200, 5]]) = Inl (ValueError m)" for m
    proof -
      from that row have "transform sc (NdArray [[real_of_int 1, temp inp, RH inp, Ws inp,
          Rain inp, FFMC inp, DMC inp, DC inp, ISI inp]]) = Inl (ValueError m)"
        by simp
      with general [of 1] r have "script sc md lib inp =
             \<lparr>prediction_panel =
                [St_error (''Input mismatch: '' @ m),
                 St_info ''Make sure the feature order and count match your training setup.''],
              batch_panel = batch_prediction sc md lib (uploaded_file inp),
              trend_panel = historical_trend inp, uncaught = None\<rparr>"
        by blast
      then show ?thesis by simp
    qed
    have success: "take 2 (prediction_panel (script sc md lib inp)) =
             [St_success (''Estimated FWI: **'' @ fmt_2f y @ ''**''),
              St_plotly_chart (Gauge (gauge y))]"
      if "transform sc (NdArray [[1, 25, 45, 10, 0, 85, 50, 200, 5]]) = Inr scaled \<and>
          predict md scaled = Inr (y # ys)" for scaled y ys
    proof -
      from that row have "transform sc (NdArray [[real_of_int 1, temp inp, RH inp, Ws inp,
          Rain inp, FFMC inp, DMC inp, DC inp, ISI inp]]) = Inr scaled \<and>
          predict md scaled = Inr (y # ys)"
        by simp
      with general [of 1] r show ?thesis
        by blast
    qed
    from mismatch success
    show "(\<forall>m. transform sc (NdArray [[1, 25, 45, 10, 0, 85, 50, 200, 5]]) = Inl (ValueError m) \<longrightarrow>
           prediction_panel (script sc md lib inp) =
             [St_error (''Input mismatch: '' @ m),
              St_info ''Make sure the feature order and count match your training setup.'']) \<and>
      (\<forall>scaled y ys.
           transform sc (NdArray [[1, 25, 45, 10, 0, 85, 50, 200, 5]]) = Inr scaled \<and>
           predict md scaled = Inr (y # ys) \<longrightarrow>
           take 2 (prediction_panel (script sc md lib inp)) =
             [St_success (''Estimated FWI: **'' @ fmt_2f y @ ''**''),
              St_plotly_chart (Gauge (gauge y))])"
      by blast
  qed
  from general [of region] example show ?thesis
    by (rule conjI)
qed

theorem manual_feature_vector_witness:
  "take 2 (prediction_panel
      (script (exact_scaler [[1, 25, 45, 10, 0, 85, 50, 200, 5]]) fake_model
         (fake_library (Inl (KeyError []))) (default_inputs\<lparr>predict_clicked := True\<rparr>))) =
     [St_success ''Estimated FWI: **0.00**'', St_plotly_chart (Gauge (gauge 0))] \<and>
   script (exact_scaler [[2, 25, 45, 10, 0, 85, 50, 200, 5]]) fake_model
      (fake_library (Inl (KeyError []))) (default_inputs\<lparr>predict_clicked := True\<rparr>) =
     \<lparr>prediction_panel =
        [St_error ''Input mismatch: not the expected array'',
         St_info ''Make sure the feature order and count match your training setup.''],
      batch_panel = [],
      trend_panel = historical_trend (default_inputs\<lparr>predict_clicked := True\<rparr>),
      uncaught = None\<rparr>"
proof -
  have ok: "transform (exact_scaler [[1, 25, 45, 10, 0, 85, 50, 200, 5]])
      (NdArray [[1, 25, 45, 10, 0, 85, 50, 200, 5]]) = Inr [[0]]"
    by (simp add: exact_scaler_def)
  have no: "transform (exact_scaler [[2, 25, 45, 10, 0, 85, 50, 200, 5]])
      (NdArray [[1, 25, 45, 10, 0, 85, 50, 200, 5]]) =
      Inl (ValueError ''not the expected array'')"
    by (simp add: exact_scaler_def)
  have p: "predict fake_model [[0]] = Inr [0]"
    by (simp add: fake_model_def)
  show ?thesis
    using
      manual_feature_vector [of "default_inputs\<lparr>predict_clicked := True\<rparr>" 1
        "exact_scaler [[1, 25, 45, 10, 0, 85, 50, 200, 5]]" fake_model
        "fake_library (Inl (KeyError []))"]
      manual_feature_vector [of "default_inputs\<lparr>predict_clicked := True\<rparr>" 1
        "exact_scaler [[2, 25, 45, 10, 0, 85, 50, 200, 5]]" fake_model
        "fake_library (Inl (KeyError []))"]
      ok no p
    by (simp add: default_inputs_def batch_prediction_def fmt_2f_0
          region_lookup_def region_map_def)
qed

subsection \<open>The gauge\<close>

lemma bands_at_cases:
  "bands_at v =
     (if 0 \<le> v \<and> v < 30 then [''lightgreen''] else []) @
     (if 30 \<le> v \<and> v < 70 then [''yellow''] else []) @
     (if 70 \<le> v \<and> v \<le> 100 then [''red''] else [])"
  by (auto simp add: bands_at_def gauge_def gauge_steps_def in_band_def)

text \<open>
  Claim C3. For every prediction the gauge has the axis range 0 to 100 and the three
  steps \<open>0..30\<close> lightgreen (low), \<open>30..70\<close> yellow (moderate) and \<open>70..100\<close> red
  (high), and the prediction as its value. With the bands half-open as the spec reads
  them, a value is in the low band iff \<open>0 \<le> v < 30\<close>, in the moderate band iff
  \<open>30 \<le> v < 70\<close> and in the high band iff \<open>70 \<le> v \<le> 100\<close>; a value is in exactly one
  band iff it is on the axis. So 20 is low, 50 is moderate and 90 is high; 0 is low, 30
  is moderate, 70 and 100 are high.
\<close>

theorem gauge_bands:
  "steps (gauge y) = gauge_steps \<and> axis_range (gauge y) = (0, 100) \<and> ivalue (gauge y) = y \<and>
   map srange gauge_steps = [(0, 30), (30, 70), (70, 100)] \<and>
   map color gauge_steps = [''lightgreen'', ''yellow'', ''red''] \<and>
   (''lightgreen'' \<in> set (bands_at v)) = (0 \<le> v \<and> v < 30) \<and>
   (''yellow'' \<in> set (bands_at v)) = (30 \<le> v \<and> v < 70) \<and>
   (''red'' \<in> set (bands_at v)) = (70 \<le> v \<and> v \<le> 100) \<and>
   (length (bands_at v) = 1) = (0 \<le> v \<and> v \<le> 100) \<and>
   bands_at 20 = [''lightgreen''] \<and> bands_at 50 = [''yellow''] \<and> bands_at 90 = [''red''] \<and>
   bands_at 0 = [''lightgreen''] \<and> bands_at 30 = [''yellow''] \<and>
   bands_at 70 = [''red''] \<and> bands_at 100 = [''red'']"
proof -
  have 1: "steps (gauge y) = gauge_steps \<and> axis_range (gauge y) = (0, 100) \<and> ivalue (gauge y) = y"
    by (simp add: gauge_def)
  have 2: "map srange gauge_steps = [(0, 30), (30, 70), (70, 100)] \<and>
           map color gauge_steps = [''lightgreen'', ''yellow'', ''red'']"
    by (simp add: gauge_steps_def)
  have 3: "(''lightgreen'' \<in> set (bands_at v)) = (0 \<le> v \<and> v < 30)"
    by (simp add: bands_at_cases)
  have 4: "(''yellow'' \<in> set (bands_at v)) = (30 \<le> v \<and> v < 70)"
    by (simp add: bands_at_cases)
  have 5: "(''red'' \<in> set (bands_at v)) = (70 \<le> v \<and> v \<le> 100)"
    by (simp add: bands_at_cases)
  have 6: "(length (bands_at v) = 1) = (0 \<le> v \<and> v \<le> 100)"
    by (auto simp add: bands_at_cases)
  have 7: "bands_at 20 = [''lightgreen''] \<and> bands_at 50 = [''yellow''] \<and> bands_at 90 = [''red'']"
    by (simp add: bands_at_cases)
  have 8: "bands_at 0 = [''lightgreen''] \<and> bands_at 30 = [''yellow''] \<and>
           bands_at 70 = [''red''] \<and> bands_at 100 = [''red'']"
    by (simp add: bands_at_cases)
  from 1 2 3 4 5 6 7 8 show ?thesis by blast
qed

subsection \<open>The single-record path\<close>

text \<open>
  Claim C5. Two runs with the same scaler and model, the same region and the same eight
  readings, the Predict button pressed in both or in neither, show the same first two
  elements of the prediction block (the message with the same two-decimal value and the
  same gauge, or the same error and hint) and end with the same uncaught exception or
  with none, whatever the upload, the random trend data, the date and the CSV functions
  of the two runs are. With the same report button and the same float text the whole
  block is the same.
\<close>

theorem single_record_deterministic:
  "region_name a = region_name b \<and> temp a = temp b \<and> RH a = RH b \<and> Ws a = Ws b \<and>
   Rain a = Rain b \<and> FFMC a = FFMC b \<and> DMC a = DMC b \<and> DC a = DC b \<and> ISI a = ISI b \<and>
   predict_clicked a = predict_clicked b
   \<Longrightarrow> take 2 (prediction_panel (script sc md lib a)) =
         take 2 (prediction_panel (script sc md lib' b)) \<and>
       uncaught (script sc md lib a) = uncaught (script sc md lib' b) \<and>
       (report_clicked a = report_clicked b \<and> float_str lib = float_str lib' \<longrightarrow>
          prediction_panel (script sc md lib a) = prediction_panel (script sc md lib' b))"
  by (simp add: script_def single_prediction_def input_data_def report_def
        split: sum.splits prod.splits option.splits py_exception.splits)

lemma fake_prediction_default:
  "predicted_fwi (fake_scaler 9) fake_model
     (input_data 1 (default_inputs\<lparr>predict_clicked := True\<rparr>)) = Inr 421"
  by (simp add: predicted_fwi_def fake_scaler_def fake_transform_def fake_model_def
        input_data_def default_inputs_def)

lemma fmt_2f_421: "fmt_2f 421 = ''421.00''"
  by (simp add: fmt_2f_def round_half_even_def nat_str.simps digit_char_def)

theorem single_record_deterministic_witness:
  "take 2 (prediction_panel (script (fake_scaler 9) fake_model (fake_library (Inl (KeyError [])))
      (default_inputs\<lparr>predict_clicked := True\<rparr>))) =
   take 2 (prediction_panel (script (fake_scaler 9) fake_model
      (fake_library (Inr \<lparr>columns = [(''a'', [Num 1])], nrows = 1\<rparr>))
      (default_inputs\<lparr>predict_clicked := True, report_clicked := True,
         uploaded_file := Some ''a,1'', random_fwi := replicate 10 20, today := 7\<rparr>))) \<and>
   uncaught (script (fake_scaler 9) fake_model (fake_library (Inl (KeyError [])))
      (default_inputs\<lparr>predict_clicked := True\<rparr>)) =
   uncaught (script (fake_scaler 9) fake_model
      (fake_library (Inr \<lparr>columns = [(''a'', [Num 1])], nrows = 1\<rparr>))
      (default_inputs\<lparr>predict_clicked := True, report_clicked := True,
         uploaded_file := Some ''a,1'', random_fwi := replicate 10 20, today := 7\<rparr>)) \<and>
   prediction_panel (script (fake_scaler 9) fake_model (fake_library (Inl (KeyError [])))
      (default_inputs\<lparr>predict_clicked := True\<rparr>)) =
     [St_success ''Estimated FWI: **421.00**'', St_plotly_chart (Gauge (gauge 421))]"
proof -
  have "predict_clicked (default_inputs\<lparr>predict_clicked := True\<rparr>) \<and>
      \<not> report_clicked (default_inputs\<lparr>predict_clicked := True\<rparr>)"
    by (simp add: default_inputs_def)
  then have shown:
    "prediction_panel (script (fake_scaler 9) fake_model (fake_library (Inl (KeyError [])))
        (default_inputs\<lparr>predict_clicked := True\<rparr>)) =
     [St_success ''Estimated FWI: **421.00**'', St_plotly_chart (Gauge (gauge 421))]"
    by (simp add: script_def single_prediction_def default_region fake_prediction_default
          fmt_2f_421)
  from shown show ?thesis
    using single_record_deterministic [of "default_inputs\<lparr>predict_clicked := True\<rparr>"
      "default_inputs\<lparr>predict_clicked := True, report_clicked := True,
         uploaded_file := Some ''a,1'', random_fwi := replicate 10 20, today := 7\<rparr>"
      "fake_scaler 9" fake_model
      "fake_library (Inl (KeyError []))"
      "fake_library (Inr \<lparr>columns = [(''a'', [Num 1])], nrows = 1\<rparr>)"]
    by (simp add: default_inputs_def)
qed

text \<open>
  Claim C6. When the Predict button is pressed and the scaler or the model rejects the
  array with a \<open>ValueError\<close> (how scikit-learn reports a row of the wrong length), the
  prediction block shows the message \<open>Input mismatch: ...\<close> and the hint about feature
  order and count, no exception leaves the block, and the run goes on to the batch block
  and the trend chart.
\<close>

theorem input_mismatch_handled:
  "region_lookup (region_name inp) = Inr region \<and> predict_clicked inp \<and>
   (transform sc (NdArray (input_data region inp)) = Inl (ValueError m) \<or>
    (\<exists>scaled. transform sc (NdArray (input_data region inp)) = Inr scaled \<and>
       predict md scaled = Inl (ValueError m)))
   \<Longrightarrow> prediction_panel (script sc md lib inp) =
         [St_error (''Input mismatch: '' @ m),
          St_info ''Make sure the feature order and count match your training setup.''] \<and>
       uncaught (script sc md lib inp) = None \<and>
       batch_panel (script sc md lib inp) = batch_prediction sc md lib (uploaded_file inp) \<and>
       trend_panel (script sc md lib inp) = historical_trend inp"
proof -
  assume a: "region_lookup (region_name inp) = Inr region \<and> predict_clicked inp \<and>
   (transform sc (NdArray (input_data region inp)) = Inl (ValueError m) \<or>
    (\<exists>scaled. transform sc (NdArray (input_data region inp)) = Inr scaled \<and>
       predict md scaled = Inl (ValueError m)))"
  then have "predicted_fwi sc md (input_data region inp) = Inl (ValueError m)"
    by (auto simp add: predicted_fwi_def)
  with a have "single_prediction sc md lib region inp =
      ([St_error (''Input mismatch: '' @ m),
        St_info ''Make sure the feature order and count match your training setup.''], None)"
    by (simp add: single_prediction_def)
  with a show ?thesis by (simp add: script_def)
qed

theorem input_mismatch_handled_witness:
  "length (hd (input_data 1 (default_inputs\<lparr>predict_clicked := True\<rparr>))) = 9 \<and>
   prediction_panel (script (fake_scaler 8) fake_model (fake_library (Inl (KeyError [])))
      (default_inputs\<lparr>predict_clicked := True\<rparr>)) =
     [St_error ''Input mismatch: X has a different number of features than the scaler is expecting'',
      St_info ''Make sure the feature order and count match your training setup.''] \<and>
   uncaught (script (fake_scaler 8) fake_model (fake_library (Inl (KeyError [])))
      (default_inputs\<lparr>predict_clicked := True\<rparr>)) = None \<and>
   trend_panel (script (fake_scaler 8) fake_model (fake_library (Inl (KeyError [])))
      (default_inputs\<lparr>predict_clicked := True\<rparr>)) =
     historical_trend (default_inputs\<lparr>predict_clicked := True\<rparr>)"
  using input_mismatch_handled [of "default_inputs\<lparr>predict_clicked := True\<rparr>" 1
      "fake_scaler 8"
      "''X has a different number of features than the scaler is expecting''" fake_model
      "fake_library (Inl (KeyError []))"]
  by (simp add: default_inputs_def region_lookup_def region_map_def input_data_def
        fake_scaler_def fake_transform_def)



subsection \<open>The batch path\<close>

text \<open>
  Claim C7. When parsing the upload raises, or the scaler, the model or the column
  assignment raises on the parsed table, the batch block shows
  \<open>Error processing file: ...\<close> with the text of the exception, after the preview of the
  upload if parsing had succeeded, and nothing else: no table of predictions and no
  download button. No exception leaves the block.
\<close>

theorem batch_failure_handled:
  "(read_csv lib bytes = Inl e \<longrightarrow>
      batch_prediction sc md lib (Some bytes) =
        [St_error (''Error processing file: '' @ exc_str e)]) \<and>
   (read_csv lib bytes = Inr df \<and>
    (transform sc (Frame df) = Inl e \<or>
     (\<exists>scaled. transform sc (Frame df) = Inr scaled \<and>
        (predict md scaled = Inl e \<or>
         (\<exists>ps. predict md scaled = Inr ps \<and>
            setitem df ''Predicted FWI'' (map Num ps) = Inl e)))) \<longrightarrow>
      batch_prediction sc md lib (Some bytes) =
        [St_subheader ''Uploaded Data Preview'', St_dataframe (head df),
         St_error (''Error processing file: '' @ exc_str e)]) \<and>
   ((read_csv lib bytes = Inl e \<or>
     (\<exists>df. read_csv lib bytes = Inr df \<and> batch_predictions sc md df = Inl e)) \<longrightarrow>
      \<not> list_ex is_download (batch_prediction sc md lib (Some bytes)) \<and>
      St_subheader ''Batch Predictions'' \<notin> set (batch_prediction sc md lib (Some bytes)) \<and>
      last (batch_prediction sc md lib (Some bytes)) =
        St_error (''Error processing file: '' @ exc_str e))"
proof -
  have 1: "read_csv lib bytes = Inl e \<longrightarrow>
      batch_prediction sc md lib (Some bytes) =
        [St_error (''Error processing file: '' @ exc_str e)]"
    by (simp add: batch_prediction_def)
  have 2: "read_csv lib bytes = Inr df \<and>
    (transform sc (Frame df) = Inl e \<or>
     (\<exists>scaled. transform sc (Frame df) = Inr scaled \<and>
        (predict md scaled = Inl e \<or>
         (\<exists>ps. predict md scaled = Inr ps \<and>
            setitem df ''Predicted FWI'' (map Num ps) = Inl e)))) \<longrightarrow>
      batch_prediction sc md lib (Some bytes) =
        [St_subheader ''Uploaded Data Preview'', St_dataframe (head df),
         St_error (''Error processing file: '' @ exc_str e)]"
    by (auto simp add: batch_prediction_def batch_predictions_def)
  have 3: "(read_csv lib bytes = Inl e \<or>
     (\<exists>df. read_csv lib bytes = Inr df \<and> batch_predictions sc md df = Inl e)) \<longrightarrow>
      \<not> list_ex is_download (batch_prediction sc md lib (Some bytes)) \<and>
      St_subheader ''Batch Predictions'' \<notin> set (batch_prediction sc md lib (Some bytes)) \<and>
      last (batch_prediction sc md lib (Some bytes)) =
        St_error (''Error processing file: '' @ exc_str e)"
    by (auto simp add: batch_prediction_def)
  from 1 2 3 show ?thesis by blast
qed

theorem batch_failure_handled_witness:
  "batch_prediction (fake_scaler 9) fake_model
      (fake_library (Inl (ValueError ''Error tokenizing data''))) (Some ''a,b'') =
     [St_error ''Error processing file: Error tokenizing data''] \<and>
   batch_prediction (fake_scaler 9) fake_model
      (fake_library (Inr \<lparr>columns = [(''a'', [Num 1])], nrows = 1\<rparr>)) (Some ''a,1'') =
     [St_subheader ''Uploaded Data Preview'',
      St_dataframe (head \<lparr>columns = [(''a'', [Num 1])], nrows = 1\<rparr>),
      St_error ''Error processing file: X has a different number of features than the scaler is expecting''] \<and>
   \<not> list_ex is_download (batch_prediction (fake_scaler 9) fake_model
      (fake_library (Inr \<lparr>columns = [(''a'', [Num 1])], nrows = 1\<rparr>)) (Some ''a,1''))"
proof -
  have t: "transform (fake_scaler 9) (Frame \<lparr>columns = [(''a'', [Num 1])], nrows = 1\<rparr>) =
      Inl (ValueError ''X has a different number of features than the scaler is expecting'')"
    by (simp add: fake_scaler_def fake_transform_def frame_rows_def)
  then have b: "batch_predictions (fake_scaler 9) fake_model
        \<lparr>columns = [(''a'', [Num 1])], nrows = 1\<rparr> =
      Inl (ValueError ''X has a different number of features than the scaler is expecting'')"
    by (simp add: batch_predictions_def)
  show ?thesis
    using
      batch_failure_handled [of "fake_library (Inl (ValueError ''Error tokenizing data''))"
        "''a,b''" "ValueError ''Error tokenizing data''" "fake_scaler 9" fake_model
        "\<lparr>columns = [(''a'', [Num 1])], nrows = 1\<rparr>"]
      batch_failure_handled [of "fake_library (Inr \<lparr>columns = [(''a'', [Num 1])], nrows = 1\<rparr>)"
        "''a,1''"
        "ValueError ''X has a different number of features than the scaler is expecting''"
        "fake_scaler 9" fake_model
        "\<lparr>columns = [(''a'', [Num 1])], nrows = 1\<rparr>"]
      t b
    by (simp add: fake_library_def)
qed

lemma setitem_aligned_new:
  "length vals = nrows df \<Longrightarrow> key \<notin> set (column_names df) \<Longrightarrow>
   setitem df key vals = Inr (df\<lparr>columns := columns df @ [(key, vals)]\<rparr>)"
  by (auto simp add: setitem_def ensure_valid_index_def Let_def)

lemma column_names_ensure_valid_index:
  "column_names (ensure_valid_index df vals) = column_names df"
  by (simp add: ensure_valid_index_def column_names_def case_prod_unfold comp_def)

lemma setitem_existing:
  "key \<in> set (column_names df) \<Longrightarrow> setitem df key vals = Inr out \<Longrightarrow>
   column_names out = column_names df \<and>
   list_all (\<lambda>c. fst c = key \<longrightarrow> snd c = vals) (columns out) \<and>
   nrows out = length vals"
proof -
  assume k: "key \<in> set (column_names df)" and s: "setitem df key vals = Inr out"
  let ?d = "ensure_valid_index df vals"
  from k have k': "key \<in> set (column_names ?d)"
    by (simp add: column_names_ensure_valid_index)
  from s k' have len: "length vals = nrows ?d"
    and out: "out = ?d\<lparr>columns := map (\<lambda>(k, vs). if k = key then (k, vals) else (k, vs)) (columns ?d)\<rparr>"
    by (auto simp add: setitem_def Let_def split: if_splits)
  have "column_names out = column_names ?d"
    by (simp add: out column_names_def case_prod_unfold comp_def if_distrib cong: if_cong)
  moreover have "list_all (\<lambda>c. fst c = key \<longrightarrow> snd c = vals) (columns out)"
    by (auto simp add: out list_all_iff)
  moreover have "nrows out = length vals"
    by (simp add: out len)
  ultimately show ?thesis
    by (simp add: column_names_ensure_valid_index)
qed

text \<open>
  Claim C4, as stated, fails. An upload with a column named \<open>Predicted FWI\<close>, here
  the columns \<open>Region = [1]\<close> and \<open>Predicted FWI = [7]\<close> with the stand-in artifacts,
  is processed without error, but the result has the same two columns, the value 7
  replaced by the prediction 8. And for an upload without rows for which the model
  answers with two predictions the result has two rows.
\<close>

theorem batch_output_counterexample:
  "batch_prediction (fake_scaler 2) fake_model
      (fake_library (Inr \<lparr>columns = [(''Region'', [Num 1]), (''Predicted FWI'', [Num 7])],
                          nrows = 1\<rparr>)) (Some ''Region,Predicted FWI'') =
     [St_subheader ''Uploaded Data Preview'',
      St_dataframe \<lparr>columns = [(''Region'', [Num 1]), (''Predicted FWI'', [Num 7])], nrows = 1\<rparr>,
      St_subheader ''Batch Predictions'',
      St_dataframe \<lparr>columns = [(''Region'', [Num 1]), (''Predicted FWI'', [Num 8])], nrows = 1\<rparr>,
      St_download_button
        \<lparr>label = ''Download Results as CSV'', data = ''RegionPredicted FWI'',
         file_name = ''fwi_predictions.csv'', mime = ''text/csv''\<rparr>] \<and>
   \<not> one_column_appended
       \<lparr>columns = [(''Region'', [Num 1]), (''Predicted FWI'', [Num 7])], nrows = 1\<rparr>
       \<lparr>columns = [(''Region'', [Num 1]), (''Predicted FWI'', [Num 8])], nrows = 1\<rparr> \<and>
   batch_predictions (fake_scaler 1) (fixed_model (Inr [3, 4]))
       \<lparr>columns = [(''Region'', [])], nrows = 0\<rparr> =
     Inr \<lparr>columns = [(''Region'', [NaN, NaN]), (''Predicted FWI'', [Num 3, Num 4])], nrows = 2\<rparr> \<and>
   \<not> one_column_appended
       \<lparr>columns = [(''Region'', [])], nrows = 0\<rparr>
       \<lparr>columns = [(''Region'', [NaN, NaN]), (''Predicted FWI'', [Num 3, Num 4])], nrows = 2\<rparr>"
  by (simp add: batch_prediction_def batch_predictions_def fake_library_def fake_scaler_def
        fake_transform_def fake_model_def fixed_model_def frame_rows_def setitem_def
        ensure_valid_index_def column_names_def head_def one_column_appended_def)

text \<open>
  Claim C4, amended. For every uploaded table that has no column named
  \<open>Predicted FWI\<close> and for which the scaler and the model succeed with one prediction per
  row, the output table has the same number of rows and the original columns with their
  values, unchanged and in their order, followed by the one new column
  \<open>Predicted FWI\<close> of the predictions; the batch block shows this table and offers its
  CSV text for download.
\<close>

theorem batch_output_appends_column:
  "read_csv lib bytes = Inr df \<and> transform sc (Frame df) = Inr scaled \<and>
   predict md scaled = Inr ps \<and> length ps = nrows df \<and>
   ''Predicted FWI'' \<notin> set (column_names df)
   \<Longrightarrow> batch_predictions sc md df =
         Inr (df\<lparr>columns := columns df @ [(''Predicted FWI'', map Num ps)]\<rparr>) \<and>
       one_column_appended df (df\<lparr>columns := columns df @ [(''Predicted FWI'', map Num ps)]\<rparr>) \<and>
       batch_prediction sc md lib (Some bytes) =
         [St_subheader ''Uploaded Data Preview'', St_dataframe (head df),
          St_subheader ''Batch Predictions'',
          St_dataframe (df\<lparr>columns := columns df @ [(''Predicted FWI'', map Num ps)]\<rparr>),
          St_download_button
            \<lparr>label = ''Download Results as CSV'',
             data = to_csv lib (df\<lparr>columns := columns df @ [(''Predicted FWI'', map Num ps)]\<rparr>),
             file_name = ''fwi_predictions.csv'', mime = ''text/csv''\<rparr>]"
proof -
  assume a: "read_csv lib bytes = Inr df \<and> transform sc (Frame df) = Inr scaled \<and>
   predict md scaled = Inr ps \<and> length ps = nrows df \<and>
   ''Predicted FWI'' \<notin> set (column_names df)"
  let ?out = "df\<lparr>columns := columns df @ [(''Predicted FWI'', map Num ps)]\<rparr>"
  from a have "setitem df ''Predicted FWI'' (map Num ps) = Inr ?out"
    by (simp add: setitem_aligned_new)
  with a have b: "batch_predictions sc md df = Inr ?out"
    by (simp add: batch_predictions_def)
  have c: "one_column_appended df ?out"
    by (simp add: one_column_appended_def)
  from a b have "batch_prediction sc md lib (Some bytes) =
         [St_subheader ''Uploaded Data Preview'', St_dataframe (head df),
          St_subheader ''Batch Predictions'', St_dataframe ?out,
          St_download_button
            \<lparr>label = ''Download Results as CSV'', data = to_csv lib ?out,
             file_name = ''fwi_predictions.csv'', mime = ''text/csv''\<rparr>]"
    by (simp add: batch_prediction_def)
  with b c show ?thesis by simp
qed

theorem batch_output_appends_column_witness:
  "batch_predictions (fake_scaler 2) fake_model
      \<lparr>columns = [(''Region'', [Num 1, Num 2]), (''Temperature'', [Num 25, Num 30])], nrows = 2\<rparr> =
     Inr \<lparr>columns = [(''Region'', [Num 1, Num 2]), (''Temperature'', [Num 25, Num 30]),
                     (''Predicted FWI'', [Num 26, Num 32])], nrows = 2\<rparr> \<and>
   one_column_appended
     \<lparr>columns = [(''Region'', [Num 1, Num 2]), (''Temperature'', [Num 25, Num 30])], nrows = 2\<rparr>
     \<lparr>columns = [(''Region'', [Num 1, Num 2]), (''Temperature'', [Num 25, Num 30]),
                 (''Predicted FWI'', [Num 26, Num 32])], nrows = 2\<rparr>"
proof -
  have t: "transform (fake_scaler 2)
      (Frame \<lparr>columns = [(''Region'', [Num 1, Num 2]), (''Temperature'', [Num 25, Num 30])],
              nrows = 2\<rparr>) = Inr [[1, 25], [2, 30]]"
    by (simp add: fake_scaler_def fake_transform_def frame_rows_def numeral_2_eq_2)
  have p: "predict fake_model [[1, 25], [2, 30]] = Inr [26, 32]"
    by (simp add: fake_model_def)
  show ?thesis
    using batch_output_appends_column [of
        "fake_library (Inr \<lparr>columns = [(''Region'', [Num 1, Num 2]),
                                      (''Temperature'', [Num 25, Num 30])], nrows = 2\<rparr>)"
        "''Region,Temperature''"
        "\<lparr>columns = [(''Region'', [Num 1, Num 2]), (''Temperature'', [Num 25, Num 30])], nrows = 2\<rparr>"
        "fake_scaler 2" "[[1, 25], [2, 30]]" fake_model "[26, 32]"] t p
    by (simp add: fake_library_def column_names_def)
qed

text \<open>
  Claim C10. The prediction column is assigned under the fixed name \<open>Predicted FWI\<close>.
  When the uploaded table already has a column of that name and the batch succeeds, the
  output has the column names of the input, no column more, and the column of that name
  holds the predictions in place of the uploaded values; the output is then not the
  input with one column appended. When the table has no such column (and the model
  answers with one prediction per row) the column is appended after the original
  ones.
\<close>

theorem predicted_column_overwrites:
  "transform sc (Frame df) = Inr scaled \<and> predict md scaled = Inr ps \<and>
   batch_predictions sc md df = Inr out
   \<Longrightarrow> (''Predicted FWI'' \<in> set (column_names df) \<longrightarrow>
          column_names out = column_names df \<and>
          length (columns out) = length (columns df) \<and>
          list_all (\<lambda>c. fst c = ''Predicted FWI'' \<longrightarrow> snd c = map Num ps) (columns out) \<and>
          \<not> one_column_appended df out) \<and>
       (''Predicted FWI'' \<notin> set (column_names df) \<and> length ps = nrows df \<longrightarrow>
          out = df\<lparr>columns := columns df @ [(''Predicted FWI'', map Num ps)]\<rparr> \<and>
          one_column_appended df out)"
proof -
  assume a: "transform sc (Frame df) = Inr scaled \<and> predict md scaled = Inr ps \<and>
   batch_predictions sc md df = Inr out"
  then have s: "setitem df ''Predicted FWI'' (map Num ps) = Inr out"
    by (auto simp add: batch_predictions_def)
  have 1: "''Predicted FWI'' \<in> set (column_names df) \<longrightarrow>
          column_names out = column_names df \<and>
          length (columns out) = length (columns df) \<and>
          list_all (\<lambda>c. fst c = ''Predicted FWI'' \<longrightarrow> snd c = map Num ps) (columns out) \<and>
          \<not> one_column_appended df out"
  proof
    assume k: "''Predicted FWI'' \<in> set (column_names df)"
    from setitem_existing [OF k s]
    have n: "column_names out = column_names df"
      and v: "list_all (\<lambda>c. fst c = ''Predicted FWI'' \<longrightarrow> snd c = map Num ps) (columns out)"
      by simp_all
    from n have "length (column_names out) = length (column_names df)" by simp
    then have l: "length (columns out) = length (columns df)"
      by (simp add: column_names_def)
    then have "\<not> one_column_appended df out"
      by (simp add: one_column_appended_def)
    with n v l show "column_names out = column_names df \<and>
          length (columns out) = length (columns df) \<and>
          list_all (\<lambda>c. fst c = ''Predicted FWI'' \<longrightarrow> snd c = map Num ps) (columns out) \<and>
          \<not> one_column_appended df out"
      by simp
  qed
  have 2: "''Predicted FWI'' \<notin> set (column_names df) \<and> length ps = nrows df \<longrightarrow>
          out = df\<lparr>columns := columns df @ [(''Predicted FWI'', map Num ps)]\<rparr> \<and>
          one_column_appended df out"
    using s by (auto simp add: setitem_aligned_new one_column_appended_def)
  from 1 2 show ?thesis by blast
qed

theorem predicted_column_overwrites_witness:
  "batch_predictions (fake_scaler 2) fake_model
      \<lparr>columns = [(''Predicted FWI'', [Num 7]), (''Region'', [Num 1])], nrows = 1\<rparr> =
     Inr \<lparr>columns = [(''Predicted FWI'', [Num 8]), (''Region'', [Num 1])], nrows = 1\<rparr> \<and>
   column_names \<lparr>columns = [(''Predicted FWI'', [Num 8]), (''Region'', [Num 1])], nrows = 1\<rparr> =
   column_names \<lparr>columns = [(''Predicted FWI'', [Num 7]), (''Region'', [Num 1])], nrows = 1\<rparr> \<and>
   \<not> one_column_appended
       \<lparr>columns = [(''Predicted FWI'', [Num 7]), (''Region'', [Num 1])], nrows = 1\<rparr>
       \<lparr>columns = [(''Predicted FWI'', [Num 8]), (''Region'', [Num 1])], nrows = 1\<rparr>"
proof -
  have t: "transform (fake_scaler 2)
      (Frame \<lparr>columns = [(''Predicted FWI'', [Num 7]), (''Region'', [Num 1])], nrows = 1\<rparr>) =
      Inr [[7, 1]]"
    by (simp add: fake_scaler_def fake_transform_def frame_rows_def)
  have p: "predict fake_model [[7, 1]] = Inr [8]"
    by (simp add: fake_model_def)
  have b: "batch_predictions (fake_scaler 2) fake_model
      \<lparr>columns = [(''Predicted FWI'', [Num 7]), (''Region'', [Num 1])], nrows = 1\<rparr> =
     Inr \<lparr>columns = [(''Predicted FWI'', [Num 8]), (''Region'', [Num 1])], nrows = 1\<rparr>"
    by (simp only: batch_predictions_def t p sum.case)
      (simp add: setitem_def ensure_valid_index_def column_names_def)
  show ?thesis
    using predicted_column_overwrites [of "fake_scaler 2"
        "\<lparr>columns = [(''Predicted FWI'', [Num 7]), (''Region'', [Num 1])], nrows = 1\<rparr>"
        "[[7, 1]]" fake_model "[8]"
        "\<lparr>columns = [(''Predicted FWI'', [Num 8]), (''Region'', [Num 1])], nrows = 1\<rparr>"] t p b
    by (simp add: column_names_def)
qed

subsection \<open>Formatting to two decimals\<close>

lemma digit_cases: "d < 10 \<Longrightarrow> d \<in> {0, 1, 2, 3, 4, 5, 6, 7, 8, 9::nat}"
  by auto

lemma digit_val_digit_char: "d < 10 \<Longrightarrow> digit_val (digit_char d) = d"
  using digit_cases [of d] by (auto simp add: digit_char_def digit_val_def)

lemma digit_char_plain:
  "d < 10 \<Longrightarrow> digit_char d \<noteq> CHR ''.'' \<and> digit_char d \<noteq> CHR ''-''"
  using digit_cases [of d] by (auto simp add: digit_char_def)

lemma str_nat_snoc: "str_nat (s @ [c]) = 10 * str_nat s + digit_val c"
  by (simp add: str_nat_def)

lemma str_nat_nat_str: "str_nat (nat_str n) = n"
proof (induction n rule: nat_str.induct)
  case (1 n)
  show ?case
  proof (cases "n < 10")
    case True
    then have "str_nat (nat_str n) = digit_val (digit_char n)"
      by (simp add: nat_str.simps [of n] str_nat_def)
    with True show ?thesis by (simp add: digit_val_digit_char)
  next
    case False
    then have "str_nat (nat_str n) = 10 * str_nat (nat_str (n div 10)) + digit_val (digit_char (n mod 10))"
      by (simp add: nat_str.simps [of n] str_nat_snoc)
    with False "1.IH" show ?thesis by (simp add: digit_val_digit_char)
  qed
qed

lemma nat_str_plain:
  "nat_str n \<noteq> [] \<and> (\<forall>c \<in> set (nat_str n). c \<noteq> CHR ''.'' \<and> c \<noteq> CHR ''-'')"
proof (induction n rule: nat_str.induct)
  case (1 n)
  show ?case
  proof (cases "n < 10")
    case True
    then show ?thesis by (simp add: nat_str.simps [of n] digit_char_plain)
  next
    case False
    have "n mod 10 < 10" by simp
    then have "digit_char (n mod 10) \<noteq> CHR ''.'' \<and> digit_char (n mod 10) \<noteq> CHR ''-''"
      by (rule digit_char_plain)
    with False "1.IH" show ?thesis by (simp add: nat_str.simps [of n])
  qed
qed

lemma round_half_even_near: "\<bar>real_of_int (round_half_even x) - x\<bar> \<le> 1 / 2"
proof -
  have "real_of_int \<lfloor>x\<rfloor> \<le> x" and "x < real_of_int \<lfloor>x\<rfloor> + 1"
    by linarith+
  then show ?thesis
    by (auto simp add: round_half_even_def Let_def)
qed

lemma round_half_even_nonneg: "0 \<le> x \<Longrightarrow> 0 \<le> round_half_even x"
  by (auto simp add: round_half_even_def Let_def)

lemma read_unsigned_fixed:
  "a < 10 \<Longrightarrow> b < 10 \<Longrightarrow>
   read_unsigned_2f (nat_str q @ ''.'' @ [digit_char a, digit_char b]) =
     real q + real (10 * a + b) / 100"
proof -
  assume a: "a < 10" and b: "b < 10"
  have plain: "\<forall>c \<in> set (nat_str q). c \<noteq> CHR ''.''"
    using nat_str_plain [of q] by simp
  have t: "takeWhile (\<lambda>c. c \<noteq> CHR ''.'') (nat_str q @ ''.'' @ [digit_char a, digit_char b]) = nat_str q"
    using plain by simp
  have d: "dropWhile (\<lambda>c. c \<noteq> CHR ''.'') (nat_str q @ ''.'' @ [digit_char a, digit_char b]) =
      ''.'' @ [digit_char a, digit_char b]"
    using plain by simp
  have "str_nat [digit_char a, digit_char b] = 10 * a + b"
    using a b by (simp add: str_nat_def digit_val_digit_char)
  then show ?thesis
    by (simp only: read_unsigned_2f_def t d str_nat_nat_str) simp
qed

lemma read_2f_fmt_2f:
  "read_2f (fmt_2f y) =
     (if y < 0 then - 1 else 1) * real_of_int (round_half_even (\<bar>y\<bar> * 100)) / 100"
proof -
  define n where "n = nat (round_half_even (\<bar>y\<bar> * 100))"
  have n: "real n = real_of_int (round_half_even (\<bar>y\<bar> * 100))"
    using round_half_even_nonneg [of "\<bar>y\<bar> * 100"] by (simp add: n_def)
  have u: "read_unsigned_2f (nat_str (n div 100) @ ''.'' @
        [digit_char (n mod 100 div 10), digit_char (n mod 10)]) = real n / 100"
  proof -
    have "n mod 100 div 10 < 10" and "n mod 10 < 10" by simp_all
    then have "read_unsigned_2f (nat_str (n div 100) @ ''.'' @
        [digit_char (n mod 100 div 10), digit_char (n mod 10)]) =
        real (n div 100) + real (10 * (n mod 100 div 10) + n mod 10) / 100"
      by (rule read_unsigned_fixed)
    moreover have "n mod 100 mod 10 = n mod 10"
      by (simp add: mod_mod_cancel)
    then have "10 * (n mod 100 div 10) + n mod 10 = n mod 100"
      using div_mult_mod_eq [of "n mod 100" 10] by simp
    then have "100 * (n div 100) + (10 * (n mod 100 div 10) + n mod 10) = n"
      by simp
    then have "real (100 * (n div 100) + (10 * (n mod 100 div 10) + n mod 10)) = real n"
      by simp
    then have "real (n div 100) + real (10 * (n mod 100 div 10) + n mod 10) / 100 = real n / 100"
      by (simp add: field_simps)
    ultimately show ?thesis by simp
  qed
  have shape: "fmt_2f y = (if y < 0 then ''-'' else []) @ nat_str (n div 100) @ ''.'' @
        [digit_char (n mod 100 div 10), digit_char (n mod 10)]"
    by (simp add: fmt_2f_def n_def Let_def)
  obtain c r where cr: "nat_str (n div 100) = c # r" and c: "c \<noteq> CHR ''-''"
    using nat_str_plain [of "n div 100"] by (cases "nat_str (n div 100)") auto
  show ?thesis
  proof (cases "y < 0")
    case True
    with shape have "fmt_2f y = CHR ''-'' # (nat_str (n div 100) @ ''.'' @
        [digit_char (n mod 100 div 10), digit_char (n mod 10)])"
      by simp
    then have "read_2f (fmt_2f y) = - (real n / 100)"
      by (simp only: read_2f_def list.case if_True u refl)
    with True n show ?thesis by simp
  next
    case False
    with shape have f: "fmt_2f y = c # (r @ ''.'' @
        [digit_char (n mod 100 div 10), digit_char (n mod 10)])"
      by (simp add: cr)
    have "read_2f (c # (r @ ''.'' @ [digit_char (n mod 100 div 10), digit_char (n mod 10)])) =
        read_unsigned_2f (c # (r @ ''.'' @ [digit_char (n mod 100 div 10), digit_char (n mod 10)]))"
      using c by (simp add: read_2f_def)
    also have "\<dots> = read_unsigned_2f (nat_str (n div 100) @ ''.'' @
        [digit_char (n mod 100 div 10), digit_char (n mod 10)])"
      by (simp add: cr)
    finally have "read_2f (fmt_2f y) = real n / 100"
      by (simp only: f u)
    with False n show ?thesis by simp
  qed
qed

lemma fmt_2f_rounds: "\<bar>read_2f (fmt_2f y) - y\<bar> \<le> 1 / 200"
proof -
  have "\<bar>real_of_int (round_half_even (\<bar>y\<bar> * 100)) - \<bar>y\<bar> * 100\<bar> \<le> 1 / 2"
    by (rule round_half_even_near)
  then show ?thesis
    by (simp add: read_2f_fmt_2f abs_if split: if_splits)
qed

lemma fmt_2f_two_decimals:
  "length (drop 1 (dropWhile (\<lambda>c. c \<noteq> CHR ''.'') (fmt_2f y))) = 2"
proof -
  have plain: "\<forall>c \<in> set (nat_str q). c \<noteq> CHR ''.''" for q
    using nat_str_plain [of q] by simp
  show ?thesis
    using plain by (simp add: fmt_2f_def Let_def)
qed

subsection \<open>The displayed value and the report\<close>

lemma sublist_report_line:
  "sublist s l \<Longrightarrow> l \<in> set ls \<Longrightarrow> sublist s (pre @ concat (map report_line ls) @ post)"
proof -
  assume s: "sublist s l" and l: "l \<in> set ls"
  from l obtain as bs where "ls = as @ l # bs"
    by (auto simp add: in_set_conv_decomp)
  then have "pre @ concat (map report_line ls) @ post =
      (pre @ concat (map report_line as) @ replicate 12 CHR '' '') @ l @
      ([CHR 10] @ concat (map report_line bs) @ post)"
    by (simp add: report_line_def)
  then have "sublist l (pre @ concat (map report_line ls) @ post)"
    by (simp only: sublist_appendI)
  with s show ?thesis
    by (rule sublist_order.order.trans)
qed

lemma sublist_whole_line:
  "l \<in> set ls \<Longrightarrow> sublist (report_line l) (pre @ concat (map report_line ls) @ post)"
proof -
  assume l: "l \<in> set ls"
  from l obtain as bs where "ls = as @ l # bs"
    by (auto simp add: in_set_conv_decomp)
  then have "pre @ concat (map report_line ls) @ post =
      (pre @ concat (map report_line as)) @ report_line l @ (concat (map report_line bs) @ post)"
    by simp
  then show ?thesis
    by (simp only: sublist_appendI)
qed

text \<open>
  Claim C8. When the Predict button is pressed and scaling and prediction succeed with
  the value \<open>y\<close>, the block shows \<open>Estimated FWI: **v**\<close> and the gauge, where \<open>v\<close> is
  \<open>y\<close> written with exactly two digits after the point and differs from \<open>y\<close> by at most
  half a hundredth; and when the report button is pressed too, it offers the report for
  download, which contains \<open>Region: \<close> and the region name (\<open>Region: Bejaia\<close> for
  Bejaia), a line \<open>Predicted FWI: v\<close>, and each of the eight readings after its label.
\<close>

theorem report_and_displayed_value:
  "predict_clicked inp \<and> predicted_fwi sc md (input_data region inp) = Inr y
   \<Longrightarrow> fst (single_prediction sc md lib region inp) =
         [St_success (''Estimated FWI: **'' @ fmt_2f y @ ''**''),
          St_plotly_chart (Gauge (gauge y))] @
         (if report_clicked inp
          then [St_download_button
                  \<lparr>label = ''Download Report'', data = report lib inp y,
                   file_name = ''FWI_Report.txt'', mime = ''text/plain''\<rparr>]
          else []) \<and>
       length (drop 1 (dropWhile (\<lambda>c. c \<noteq> CHR ''.'') (fmt_2f y))) = 2 \<and>
       \<bar>read_2f (fmt_2f y) - y\<bar> \<le> 1 / 200 \<and>
       sublist (''Region: '' @ region_name inp) (report lib inp y) \<and>
       (region_name inp = ''Bejaia'' \<longrightarrow> sublist ''Region: Bejaia'' (report lib inp y)) \<and>
       sublist (report_line (''Predicted FWI: '' @ fmt_2f y)) (report lib inp y) \<and>
       sublist (''Temperature: '' @ float_str lib (temp inp)) (report lib inp y) \<and>
       sublist (''Humidity: '' @ float_str lib (RH inp)) (report lib inp y) \<and>
       sublist (''Wind Speed: '' @ float_str lib (Ws inp)) (report lib inp y) \<and>
       sublist (''Rain: '' @ float_str lib (Rain inp)) (report lib inp y) \<and>
       sublist (''FFMC: '' @ float_str lib (FFMC inp)) (report lib inp y) \<and>
       sublist (''DMC: '' @ float_str lib (DMC inp)) (report lib inp y) \<and>
       sublist (''DC: '' @ float_str lib (DC inp)) (report lib inp y) \<and>
       sublist (''ISI: '' @ float_str lib (ISI inp)) (report lib inp y)"
proof -
  assume a: "predict_clicked inp \<and> predicted_fwi sc md (input_data region inp) = Inr y"
  then have shown: "fst (single_prediction sc md lib region inp) =
         [St_success (''Estimated FWI: **'' @ fmt_2f y @ ''**''),
          St_plotly_chart (Gauge (gauge y))] @
         (if report_clicked inp
          then [St_download_button
                  \<lparr>label = ''Download Report'', data = report lib inp y,
                   file_name = ''FWI_Report.txt'', mime = ''text/plain''\<rparr>]
          else [])"
    by (simp add: single_prediction_def)
  have region: "sublist (''Region: '' @ region_name inp) (report lib inp y)"
    unfolding report_def by (rule sublist_report_line [where l = "''Region: '' @ region_name inp"]) simp_all
  then have bejaia: "region_name inp = ''Bejaia'' \<longrightarrow> sublist ''Region: Bejaia'' (report lib inp y)"
    by auto
  have fwi: "sublist (report_line (''Predicted FWI: '' @ fmt_2f y)) (report lib inp y)"
    unfolding report_def by (rule sublist_whole_line) simp
  have t: "sublist (''Temperature: '' @ float_str lib (temp inp)) (report lib inp y)"
    unfolding report_def
    by (rule sublist_report_line
          [where l = "''Temperature: '' @ float_str lib (temp inp) @ '' '' @ [CHR 176] @ ''C''"])
       (simp_all add: sublist_append_rightI [of "''Temperature: '' @ float_str lib (temp inp)", simplified])
  have h: "sublist (''Humidity: '' @ float_str lib (RH inp)) (report lib inp y)"
    unfolding report_def
    by (rule sublist_report_line [where l = "''Humidity: '' @ float_str lib (RH inp) @ '' %''"])
       (simp_all add: sublist_append_rightI [of "''Humidity: '' @ float_str lib (RH inp)", simplified])
  have w: "sublist (''Wind Speed: '' @ float_str lib (Ws inp)) (report lib inp y)"
    unfolding report_def
    by (rule sublist_report_line [where l = "''Wind Speed: '' @ float_str lib (Ws inp) @ '' km/h''"])
       (simp_all add: sublist_append_rightI [of "''Wind Speed: '' @ float_str lib (Ws inp)", simplified])
  have r: "sublist (''Rain: '' @ float_str lib (Rain inp)) (report lib inp y)"
    unfolding report_def
    by (rule sublist_report_line [where l = "''Rain: '' @ float_str lib (Rain inp) @ '' mm''"])
       (simp_all add: sublist_append_rightI [of "''Rain: '' @ float_str lib (Rain inp)", simplified])
  have f: "sublist (''FFMC: '' @ float_str lib (FFMC inp)) (report lib inp y)"
    unfolding report_def
    by (rule sublist_report_line [where l = "''FFMC: '' @ float_str lib (FFMC inp)"]) simp_all
  have d: "sublist (''DMC: '' @ float_str lib (DMC inp)) (report lib inp y)"
    unfolding report_def
    by (rule sublist_report_line [where l = "''DMC: '' @ float_str lib (DMC inp)"]) simp_all
  have dc: "sublist (''DC: '' @ float_str lib (DC inp)) (report lib inp y)"
    unfolding report_def
    by (rule sublist_report_line [where l = "''DC: '' @ float_str lib (DC inp)"]) simp_all
  have i: "sublist (''ISI: '' @ float_str lib (ISI inp)) (report lib inp y)"
    unfolding report_def
    by (rule sublist_report_line [where l = "''ISI: '' @ float_str lib (ISI inp)"]) simp_all
  from shown fmt_2f_two_decimals [of y] fmt_2f_rounds [of y] region bejaia fwi t h w r f d dc i
  show ?thesis by blast
qed

lemma fake_prediction_report:
  "predicted_fwi (fake_scaler 9) fake_model
     (input_data 1 (default_inputs\<lparr>predict_clicked := True, report_clicked := True\<rparr>)) = Inr 421"
  by (simp add: predicted_fwi_def fake_scaler_def fake_transform_def fake_model_def
        input_data_def default_inputs_def)

theorem report_and_displayed_value_witness:
  "fst (single_prediction (fake_scaler 9) fake_model (fake_library (Inl (KeyError []))) 1
         (default_inputs\<lparr>predict_clicked := True, report_clicked := True\<rparr>)) =
     [St_success ''Estimated FWI: **421.00**'', St_plotly_chart (Gauge (gauge 421)),
      St_download_button
        \<lparr>label = ''Download Report'',
         data = report (fake_library (Inl (KeyError [])))
                  (default_inputs\<lparr>predict_clicked := True, report_clicked := True\<rparr>) 421,
         file_name = ''FWI_Report.txt'', mime = ''text/plain''\<rparr>] \<and>
   \<bar>read_2f ''421.00'' - 421\<bar> \<le> 1 / 200 \<and>
   sublist ''Region: Bejaia''
     (report (fake_library (Inl (KeyError [])))
        (default_inputs\<lparr>predict_clicked := True, report_clicked := True\<rparr>) 421) \<and>
   sublist (report_line ''Predicted FWI: 421.00'')
     (report (fake_library (Inl (KeyError [])))
        (default_inputs\<lparr>predict_clicked := True, report_clicked := True\<rparr>) 421)"
  using report_and_displayed_value
      [of "default_inputs\<lparr>predict_clicked := True, report_clicked := True\<rparr>"
          "fake_scaler 9" fake_model 1 421 "fake_library (Inl (KeyError []))"]
    fake_prediction_report
  by (simp add: default_inputs_def fmt_2f_421)

end
